theory Spec2Isabelle
  imports Main
begin

section \<open>The secp256k1 curve wrapper (package jose, s256.go)\<close>

text \<open>
  The Go source wraps go-ethereum's \<^verbatim>\<open>secp256k1.BitCurve\<close> so that it can be used as an
  \<^verbatim>\<open>elliptic.Curve\<close>:
  \<^verbatim>\<open>
  var s256Curve = &S256Curve{secp256k1.S256()}

  type S256Curve struct {
      *secp256k1.BitCurve
  }

  func S256() elliptic.Curve {
      return s256Curve
  }

  func (BitCurve *S256Curve) Params() *elliptic.CurveParams {
      return &elliptic.CurveParams{
          P:       BitCurve.P,
          N:       BitCurve.N,
          B:       BitCurve.B,
          Gx:      BitCurve.Gx,
          Gy:      BitCurve.Gy,
          BitSize: BitCurve.BitSize,
          Name:    "secp256k1",
      }
  }
  \<close>
  Go's \<^verbatim>\<open>*big.Int\<close> is an unbounded integer, modelled as \<open>int\<close>; \<^verbatim>\<open>BitSize\<close> is a Go
  \<^verbatim>\<open>int\<close> that only ever holds the value copied from the wrapped curve.
\<close>

subsection \<open>Data\<close>

text \<open>
  \<^verbatim>\<open>secp256k1.BitCurve\<close>: the six fields the wrapper reads, under the names the source
  uses for them.
\<close>

record BitCurve =
  P :: int
  N :: int
  B :: int
  Gx :: int
  Gy :: int
  BitSize :: int

text \<open>
  \<^verbatim>\<open>elliptic.CurveParams\<close> has the same six fields and a \<^verbatim>\<open>Name\<close>. It is declared as an
  extension of the record above, so that the field names of the source (\<open>P\<close>, \<open>N\<close>,
  \<open>B\<close>, \<open>Gx\<close>, \<open>Gy\<close>, \<open>BitSize\<close>) read both structs.
\<close>

record CurveParams = BitCurve +
  Name :: string

text \<open>\<^verbatim>\<open>S256Curve\<close> embeds the pointer to the wrapped curve as its only field.\<close>

datatype S256Curve = S256Curve (BitCurve: BitCurve)

subsection \<open>The wrapped curve\<close>

text \<open>
  Modelled from the spec: the value of \<^verbatim>\<open>secp256k1.S256()\<close> is missing from the sources.
  The function belongs to go-ethereum
  (\<^verbatim>\<open>github.com/ethereum/go-ethereum/crypto/secp256k1\<close>, required by go.mod at v1.11.6), and
  neither the sources nor spec.md spell its fields out; the test \<^verbatim>\<open>TestS256Curve\<close> of the
  sources expects \<open>B\<close> to print as 7. The curve it returns is secp256k1,
  \<open>y\<^sup>2 = x\<^sup>3 + 7\<close> over the prime field of order \<open>2\<^sup>2\<^sup>5\<^sup>6 - 2\<^sup>3\<^sup>2 - 977\<close> with the standard base
  point and group order (SEC 2, section 2.4.1). In hexadecimal:
  \<^verbatim>\<open>
  P  = FFFFFFFF FFFFFFFF FFFFFFFF FFFFFFFF FFFFFFFF FFFFFFFF FFFFFFFE FFFFFC2F
  N  = FFFFFFFF FFFFFFFF FFFFFFFF FFFFFFFE BAAEDCE6 AF48A03B BFD25E8C D0364141
  Gx = 79BE667E F9DCBBAC 55A06295 CE870B07 029BFCDB 2DCE28D9 59F2815B 16F81798
  Gy = 483ADA77 26A3C465 5DA4FBFC 0E1108A8 FD17B448 A6855419 9C47D08F FB10D4B8
  \<close>
\<close>

definition secp256k1_S256 :: BitCurve where
  "secp256k1_S256 =
     \<lparr> P = 115792089237316195423570985008687907853269984665640564039457584007908834671663,
       N = 115792089237316195423570985008687907852837564279074904382605163141518161494337,
       B = 7,
       Gx = 55066263022277343669578718895168534326250603453777594175500187360389116729240,
       Gy = 32670510020758816978083085130507043184471273380659243275938904335757337482424,
       BitSize = 256 \<rparr>"

subsection \<open>The wrapper\<close>

text \<open>The package variable \<^verbatim>\<open>s256Curve\<close>, initialised once and never assigned again.\<close>

definition s256Curve :: S256Curve where
  "s256Curve = S256Curve secp256k1_S256"

text \<open>\<^verbatim>\<open>S256()\<close> returns that variable.\<close>

definition S256 :: S256Curve where
  "S256 = s256Curve"

text \<open>
  \<^verbatim>\<open>Params\<close> builds a fresh \<^verbatim>\<open>CurveParams\<close> from the fields of the embedded curve. In Go
  the new struct shares the \<^verbatim>\<open>*big.Int\<close> pointers of the wrapped curve; nothing in the sources
  writes through them, so the numbers are values here.
\<close>

definition Params :: "S256Curve \<Rightarrow> CurveParams" where
  "Params c =
     \<lparr> P = P (BitCurve c),
       N = N (BitCurve c),
       B = B (BitCurve c),
       Gx = Gx (BitCurve c),
       Gy = Gy (BitCurve c),
       BitSize = BitSize (BitCurve c),
       Name = ''secp256k1'' \<rparr>"

section \<open>The scan over linked credentials (package didconfig)\<close>

text \<open>
  The sources hold the tests of the domain linkage verifier (\<^verbatim>\<open>TestVerifyDIDAndDomain\<close>,
  \<^verbatim>\<open>TestInterop\<close>) but not the verifier. This section writes down its orchestration as
  spec.md describes it (sections 3, 4.5, 4.6 and 7): the data model, the Linkage Matcher,
  and the state machine \<open>Fetching \<rightarrow> Parsing \<rightarrow> (per credential: Normalizing \<rightarrow>
  Resolving&Verifying \<rightarrow> Matching) \<rightarrow> Done\<close>. The Fetcher, the Parser, the Credential
  Normalizer and the Proof Verifier enter through their contracts only.
\<close>

subsection \<open>Failures\<close>

text \<open>
  Modelled from the spec: the per-entry failures of section 7, which are missing from the
  sources. \<open>CredentialFormatError\<close> names the offending field; "ResolutionError: issuer DID
  cannot be resolved, or the referenced verification method/key is absent";
  "SignatureVerificationError: resolution succeeded but the cryptographic check failed";
  "LinkageMismatchError: credential parsed and verified but subject/origin/type do not
  match the target". Each is "scoped to one entry".
\<close>

datatype EntryError =
    CredentialFormatError string
  | ResolutionError
  | SignatureVerificationError
  | LinkageMismatchError

text \<open>
  Modelled from the spec: the terminal failures of section 7, missing from the sources.
  \<open>TransportError\<close> carries the underlying cause; \<open>HTTPStatusError\<close> "carries URL,
  status, and body text"; \<open>StructuralError\<close> carries its reason; \<open>NoLinkageFoundError\<close>
  is the "terminal aggregate failure when no entry in linked_dids satisfies all checks",
  "summarizing that none of N candidates matched", and carries that \<open>N\<close>.
\<close>

datatype Failure =
    TransportError string
  | HTTPStatusError string nat string
  | StructuralError string
  | NoLinkageFoundError nat

text \<open>
  Modelled from the spec: the VerificationOutcome of section 3, missing from the sources:
  "success (unit) or a typed failure carrying the reason"; the terminal states of
  section 4.6 are \<open>Verified\<close> and \<open>Failed(reason)\<close>.
\<close>

datatype VerificationOutcome = Verified | Failed Failure

subsection \<open>Data model\<close>

text \<open>
  Modelled from the spec: the RawCredential of section 3, missing from the sources: "a
  tagged union: either an opaque compact-token string, or a structured linked-data
  object". The scan never looks inside the object, so its representation is the type
  parameter \<open>'o\<close>.
\<close>

datatype 'o RawCredential = CompactToken string | LinkedDataObject 'o

text \<open>
  Modelled from the spec: the LinkageConfiguration of section 3, missing from the sources:
  "context: URI-or-array, linkedCredentials: ordered sequence of RawCredential", where
  "linkedCredentials may be empty". (\<open>context\<close> is a keyword of Isabelle, hence
  \<open>contextURIs\<close>.)
\<close>

record 'o LinkageConfiguration =
  contextURIs :: "string list"
  linkedCredentials :: "'o RawCredential list"

text \<open>
  Modelled from the spec: the normalized credential that the Credential Normalizer
  produces (sections 2 and 4.3), missing from the sources: the projected \<open>issuer\<close>,
  \<open>credentialSubject\<close> (\<open>id\<close> and \<open>origin\<close>) and \<open>type\<close>, "plus its external proof
  material", whose representation is the type parameter \<open>'p\<close>.
\<close>

record 'p NormalizedCredential =
  issuer :: string
  subjectId :: string
  subjectOrigin :: string
  credentialType :: "string list"
  proofMaterial :: 'p

text \<open>
  Modelled from the spec: the contracts of the components that run before the Linkage
  Matcher (sections 4.1 to 4.4), all missing from the sources:
  \<^item> \<open>fetch(domain) -> bytes\<close>, failing with a transport or status error;
  \<^item> \<open>parse(bytes) -> LinkageConfiguration\<close>, failing with a structural error;
  \<^item> \<open>normalize(RawCredential) -> NormalizedCredential | error\<close>
    (\<open>normalize\<close> is a constant of HOL, hence \<open>normalizeCredential\<close>);
  \<^item> \<open>verify(NormalizedCredential) -> bool | error\<close>, where \<open>False\<close> is a signature that
    does not check and the error is a failed resolution.
  What they compute is left open: the properties below hold for every choice.
\<close>

record ('o, 'p) Components =
  fetch :: "string \<Rightarrow> Failure + string"
  parse :: "string \<Rightarrow> Failure + 'o LinkageConfiguration"
  normalizeCredential :: "'o RawCredential \<Rightarrow> EntryError + 'p NormalizedCredential"
  verify :: "'p NormalizedCredential \<Rightarrow> EntryError + bool"

subsection \<open>Linkage Matcher\<close>

text \<open>
  Modelled from the spec: the normalization of origins in section 4.5, missing from the
  sources: "after stripping trailing slash".
\<close>

definition stripTrailingSlash :: "string \<Rightarrow> string" where
  "stripTrailingSlash s = (if s \<noteq> [] \<and> last s = CHR ''/'' then butlast s else s)"

text \<open>
  Modelled from the spec: the domain-linkage marker of sections 3 and 4.5, missing from the
  sources; the credentials of the test fixtures carry it as \<^verbatim>\<open>"DomainLinkageCredential"\<close>.
\<close>

definition domainLinkageMarker :: string where
  "domainLinkageMarker = ''DomainLinkageCredential''"

text \<open>
  Modelled from the spec: \<open>matches(NormalizedCredential, targetDID, targetDomain) -> bool\<close>
  of section 4.5, missing from the sources. "Three checks, all required: (1)
  credentialSubject.id == targetDID (exact string equality); (2) credentialSubject.origin,
  after stripping trailing slash, equals targetDomain after the same normalization; (3)
  type contains the domain-linkage marker."
\<close>

definition matches :: "'p NormalizedCredential \<Rightarrow> string \<Rightarrow> string \<Rightarrow> bool" where
  "matches c targetDID targetDomain =
     (subjectId c = targetDID
      \<and> stripTrailingSlash (subjectOrigin c) = stripTrailingSlash targetDomain
      \<and> domainLinkageMarker \<in> set (credentialType c))"

subsection \<open>Orchestration\<close>

text \<open>
  Modelled from the spec: the pipeline of one list entry in section 4.6, missing from the
  sources: \<open>Normalizing \<rightarrow> Resolving&Verifying \<rightarrow> Matching\<close>. An entry passes when it
  normalizes, its proof verifies and it matches the target; otherwise the stage that
  failed gives the entry's error.
\<close>

definition checkEntry ::
  "('o, 'p) Components \<Rightarrow> string \<Rightarrow> string \<Rightarrow> 'o RawCredential \<Rightarrow> EntryError + unit" where
  "checkEntry cs targetDID targetDomain e =
     (case normalizeCredential cs e of
        Inl err \<Rightarrow> Inl err
      | Inr c \<Rightarrow>
          (case verify cs c of
             Inl err \<Rightarrow> Inl err
           | Inr ok \<Rightarrow>
               if \<not> ok then Inl SignatureVerificationError
               else if matches c targetDID targetDomain then Inr ()
               else Inl LinkageMismatchError))"

text \<open>
  Modelled from the spec: the per-credential loop of sections 4.6 and 7, missing from the
  sources. "A failure at Normalizing, Resolving&Verifying, or Matching for one entry does
  not terminate the loop; the loop advances to the next entry. The overall call succeeds
  the instant one entry satisfies Matching." Per-entry errors "are logged/collected as
  diagnostics, and the loop proceeds": the last argument is the diagnostics collected so
  far, and the result says whether an entry passed.
\<close>

fun scan ::
  "('o, 'p) Components \<Rightarrow> string \<Rightarrow> string \<Rightarrow> 'o RawCredential list \<Rightarrow> EntryError list
     \<Rightarrow> bool \<times> EntryError list" where
  "scan cs targetDID targetDomain [] diags = (False, diags)"
| "scan cs targetDID targetDomain (e # es) diags =
     (case checkEntry cs targetDID targetDomain e of
        Inr u \<Rightarrow> (True, diags)
      | Inl err \<Rightarrow> scan cs targetDID targetDomain es (diags @ [err]))"

text \<open>
  Modelled from the spec: the top-level operation of section 4.6, which the tests call as
  \<^verbatim>\<open>VerifyDIDAndDomain(did, domain)\<close> and which is missing from the sources. "Any structural
  or transport error at Fetching/Parsing terminates immediately with that error"; the
  call "fails only after the entire list is exhausted without a match", with
  \<open>NoLinkageFoundError\<close> for the \<open>N\<close> candidates. The result pairs the outcome the caller
  observes with the diagnostics collected on the way.
\<close>

definition VerifyDIDAndDomain ::
  "('o, 'p) Components \<Rightarrow> string \<Rightarrow> string \<Rightarrow> VerificationOutcome \<times> EntryError list" where
  "VerifyDIDAndDomain cs targetDID targetDomain =
     (case fetch cs targetDomain of
        Inl failure \<Rightarrow> (Failed failure, [])
      | Inr bytes \<Rightarrow>
          (case parse cs bytes of
             Inl failure \<Rightarrow> (Failed failure, [])
           | Inr cfg \<Rightarrow>
               (case scan cs targetDID targetDomain (linkedCredentials cfg) [] of
                  (True, diags) \<Rightarrow> (Verified, diags)
                | (False, diags) \<Rightarrow>
                    (Failed (NoLinkageFoundError (length (linkedCredentials cfg))), diags))))"

subsection \<open>A configuration to run the scan on\<close>

text \<open>
  The target of the tests in the sources:
  \<^verbatim>\<open>
  const (
      testDID    = "did:key:z6MkoTHsgNNrby8JzCNQ1iRLyW5QQ6R8Xuu6AA8igGrMVPUM"
      testDomain = "https://identity.foundation"

      contextV1 = "https://identity.foundation/.well-known/did-configuration/v1"
  )
  \<close>
\<close>

definition testDID :: string where
  "testDID = ''did:key:z6MkoTHsgNNrby8JzCNQ1iRLyW5QQ6R8Xuu6AA8igGrMVPUM''"

definition testDomain :: string where
  "testDomain = ''https://identity.foundation''"

definition contextV1 :: string where
  "contextV1 = ''https://identity.foundation/.well-known/did-configuration/v1''"

text \<open>
  An instance of the components, small enough to evaluate. A linked-data object is the
  triple of its issuer, its subject's id and its subject's origin. Four entries are
  rejected for the target \<open>(testDID, testDomain)\<close>, one at each stage of the pipeline and
  in each way: a string that is no token, an issuer that does not resolve, a signature
  that does not check, an origin that is another domain. The fifth is genuine (its origin
  has a trailing slash); a sixth follows it.
\<close>

definition exampleRejected :: "(string \<times> string \<times> string) RawCredential list" where
  "exampleRejected =
     [ CompactToken ''not-a-token'',
       LinkedDataObject (''did:example:unknown'', testDID, testDomain),
       LinkedDataObject (''did:example:forged'', testDID, testDomain),
       LinkedDataObject (testDID, testDID, ''https://example.com'') ]"

definition exampleGenuine :: "(string \<times> string \<times> string) RawCredential" where
  "exampleGenuine = LinkedDataObject (testDID, testDID, ''https://identity.foundation/'')"

definition exampleConfiguration :: "(string \<times> string \<times> string) LinkageConfiguration" where
  "exampleConfiguration =
     \<lparr> contextURIs = [contextV1],
       linkedCredentials = exampleRejected @ exampleGenuine # [CompactToken ''never-reached''] \<rparr>"

definition exampleComponents :: "(string \<times> string \<times> string, unit) Components" where
  "exampleComponents =
     \<lparr> fetch = (\<lambda>domain. Inr ''document''),
       parse = (\<lambda>bytes. Inr exampleConfiguration),
       normalizeCredential = (\<lambda>e. case e of
            CompactToken t \<Rightarrow> Inl (CredentialFormatError ''segments'')
          | LinkedDataObject (i, s, orig) \<Rightarrow>
              Inr \<lparr> issuer = i, subjectId = s, subjectOrigin = orig,
                    credentialType = [''VerifiableCredential'', ''DomainLinkageCredential''],
                    proofMaterial = () \<rparr>),
       verify = (\<lambda>c. if issuer c = ''did:example:unknown'' then Inl ResolutionError
                      else Inr (issuer c \<noteq> ''did:example:forged'')) \<rparr>"

section \<open>Properties of the curve wrapper\<close>

text \<open>
  The transcribed constants are consistent: the field order is \<open>2\<^sup>2\<^sup>5\<^sup>6 - 2\<^sup>3\<^sup>2 - 977\<close>
  and the base point satisfies the curve equation \<open>y\<^sup>2 = x\<^sup>3 + B\<close> modulo \<open>P\<close>.
\<close>

lemma secp256k1_field_order:
  "P secp256k1_S256 = 2 ^ 256 - 2 ^ 32 - 977"
  by (simp add: secp256k1_S256_def)

lemma secp256k1_base_point_on_curve:
  "(Gy secp256k1_S256 * Gy secp256k1_S256) mod P secp256k1_S256 =
   (Gx secp256k1_S256 * Gx secp256k1_S256 * Gx secp256k1_S256 + B secp256k1_S256)
     mod P secp256k1_S256"
  by (simp add: secp256k1_S256_def)

text \<open>\<^verbatim>\<open>Params\<close> copies every numeric field of whatever curve is wrapped.\<close>

lemma Params_truncate:
  "BitCurve.truncate (Params c) = BitCurve c"
  by (cases c) (simp add: Params_def BitCurve.truncate_def)

text \<open>
  Claim C9. Every call of \<^verbatim>\<open>S256()\<close> returns the same wrapper, and its \<^verbatim>\<open>Params()\<close> has
  the name \<open>secp256k1\<close> and the fields \<open>P\<close>, \<open>N\<close>, \<open>B\<close>, \<open>Gx\<close>, \<open>Gy\<close> and
  \<open>BitSize\<close> of the wrapped go-ethereum curve; in particular its \<open>B\<close> is 7.
\<close>

theorem S256_Params:
  "Name (Params S256) = ''secp256k1''
   \<and> P (Params S256) = P (BitCurve S256)
   \<and> N (Params S256) = N (BitCurve S256)
   \<and> B (Params S256) = B (BitCurve S256)
   \<and> Gx (Params S256) = Gx (BitCurve S256)
   \<and> Gy (Params S256) = Gy (BitCurve S256)
   \<and> BitSize (Params S256) = BitSize (BitCurve S256)
   \<and> BitCurve S256 = secp256k1_S256
   \<and> B (Params S256) = 7"
  by (simp add: Params_def S256_def s256Curve_def secp256k1_S256_def)

section \<open>Properties of the scan over linked credentials\<close>

text \<open>An entry passes exactly when all three stages accept it.\<close>

lemma checkEntry_passes_iff:
  "checkEntry cs d m e = Inr () \<longleftrightarrow>
   (\<exists>c. normalizeCredential cs e = Inr c \<and> verify cs c = Inr True \<and> matches c d m)"
  by (auto simp: checkEntry_def split: sum.splits)

text \<open>
  Entries that fail are passed over: the scan continues behind them with their errors
  appended to the diagnostics, in order.
\<close>

lemma scan_skips_failures:
  "map (checkEntry cs d m) pre = map Inl errs \<Longrightarrow>
   scan cs d m (pre @ rest) diags = scan cs d m rest (diags @ errs)"
proof (induction pre arbitrary: errs diags)
  case Nil
  then show ?case by simp
next
  case (Cons e pre)
  from Cons.prems obtain err errs' where
    errs: "errs = err # errs'" and
    e: "checkEntry cs d m e = Inl err" and
    pre: "map (checkEntry cs d m) pre = map Inl errs'"
    by (cases errs) auto
  from Cons.IH [OF pre] e show ?case
    by (simp add: errs)
qed

text \<open>The scan reports a match exactly when some entry of the list passes.\<close>

lemma scan_found_iff:
  "fst (scan cs d m es diags) \<longleftrightarrow> (\<exists>e \<in> set es. checkEntry cs d m e = Inr ())"
  by (induction es arbitrary: diags) (auto split: sum.splits)

text \<open>
  A failure of the Fetcher or of the Parser ends the call at once with that failure,
  before any entry is looked at.
\<close>

lemma VerifyDIDAndDomain_aborts:
  "fetch cs m = Inl failure \<Longrightarrow> VerifyDIDAndDomain cs d m = (Failed failure, [])"
  "fetch cs m = Inr bytes \<Longrightarrow> parse cs bytes = Inl failure \<Longrightarrow>
   VerifyDIDAndDomain cs d m = (Failed failure, [])"
  by (simp_all add: VerifyDIDAndDomain_def)

text \<open>
  Claim C3. For every configuration that was fetched and parsed, and whatever the
  Normalizer and the Proof Verifier compute:
  \<^item> entries that fail at Normalizing, Resolving&Verifying or Matching do not end the scan:
    when the entries before \<open>e\<close> all fail and \<open>e\<close> passes, the call succeeds, whatever
    follows \<open>e\<close>, and the diagnostics are the errors of the entries before \<open>e\<close>;
  \<^item> when every one of the \<open>N\<close> entries fails, the call fails with
    \<open>NoLinkageFoundError N\<close> and the diagnostics are the \<open>N\<close> errors;
  \<^item> a success is never false: some entry of the list normalizes, verifies and matches
    the target;
  \<^item> the caller observes one of these two outcomes and no other.
\<close>

theorem VerifyDIDAndDomain_scan:
  assumes "fetch cs targetDomain = Inr bytes" and "parse cs bytes = Inr cfg"
  shows
    "(\<forall>pre e rest errs.
        linkedCredentials cfg = pre @ e # rest
        \<and> map (checkEntry cs targetDID targetDomain) pre = map Inl errs
        \<and> checkEntry cs targetDID targetDomain e = Inr ()
        \<longrightarrow> VerifyDIDAndDomain cs targetDID targetDomain = (Verified, errs))
     \<and> (\<forall>errs.
        map (checkEntry cs targetDID targetDomain) (linkedCredentials cfg) = map Inl errs
        \<longrightarrow> VerifyDIDAndDomain cs targetDID targetDomain =
              (Failed (NoLinkageFoundError (length (linkedCredentials cfg))), errs))
     \<and> (fst (VerifyDIDAndDomain cs targetDID targetDomain) = Verified
        \<longrightarrow> (\<exists>e \<in> set (linkedCredentials cfg).
               \<exists>c. normalizeCredential cs e = Inr c \<and> verify cs c = Inr True
                   \<and> matches c targetDID targetDomain))
     \<and> (fst (VerifyDIDAndDomain cs targetDID targetDomain) = Verified
        \<or> fst (VerifyDIDAndDomain cs targetDID targetDomain) =
             Failed (NoLinkageFoundError (length (linkedCredentials cfg))))"
proof -
  let ?es = "linkedCredentials cfg"
  let ?scan = "scan cs targetDID targetDomain ?es []"
  have call: "VerifyDIDAndDomain cs targetDID targetDomain =
      (case ?scan of
         (True, diags) \<Rightarrow> (Verified, diags)
       | (False, diags) \<Rightarrow> (Failed (NoLinkageFoundError (length ?es)), diags))"
    using assms by (simp add: VerifyDIDAndDomain_def)
  have first: "VerifyDIDAndDomain cs targetDID targetDomain = (Verified, errs)"
    if "?es = pre @ e # rest"
      and "map (checkEntry cs targetDID targetDomain) pre = map Inl errs"
      and "checkEntry cs targetDID targetDomain e = Inr ()"
    for pre e rest errs
  proof -
    have "?scan = scan cs targetDID targetDomain (e # rest) ([] @ errs)"
      unfolding that(1) by (rule scan_skips_failures [OF that(2)])
    also have "\<dots> = (True, errs)"
      using that(3) by simp
    finally show ?thesis
      by (simp add: call)
  qed
  have none: "VerifyDIDAndDomain cs targetDID targetDomain =
      (Failed (NoLinkageFoundError (length ?es)), errs)"
    if "map (checkEntry cs targetDID targetDomain) ?es = map Inl errs" for errs
  proof -
    have "?scan = scan cs targetDID targetDomain [] ([] @ errs)"
      using scan_skips_failures [OF that, of "[]" "[]"] by simp
    then show ?thesis
      by (simp add: call)
  qed
  have sound: "\<exists>e \<in> set ?es. \<exists>c. normalizeCredential cs e = Inr c \<and> verify cs c = Inr True
      \<and> matches c targetDID targetDomain"
    if "fst (VerifyDIDAndDomain cs targetDID targetDomain) = Verified"
  proof -
    from that have "fst ?scan"
      by (auto simp: call split: prod.splits bool.splits)
    then show ?thesis
      by (simp add: scan_found_iff checkEntry_passes_iff)
  qed
  have total: "fst (VerifyDIDAndDomain cs targetDID targetDomain) = Verified
      \<or> fst (VerifyDIDAndDomain cs targetDID targetDomain) =
           Failed (NoLinkageFoundError (length ?es))"
    by (auto simp: call split: prod.splits bool.splits)
  from first none sound total show ?thesis
    by blast
qed

text \<open>
  The theorem at the example configuration. For the target of the tests the four rejected
  entries are passed over and the fifth is accepted; for a DID that no entry names, all
  six entries are rejected.
\<close>

lemmas example_defs =
  exampleComponents_def exampleConfiguration_def exampleRejected_def exampleGenuine_def
  checkEntry_def matches_def stripTrailingSlash_def domainLinkageMarker_def
  testDID_def testDomain_def

theorem VerifyDIDAndDomain_scan_witness:
  "fetch exampleComponents testDomain = Inr ''document''
   \<and> parse exampleComponents ''document'' = Inr exampleConfiguration
   \<and> VerifyDIDAndDomain exampleComponents testDID testDomain =
       (Verified,
        [CredentialFormatError ''segments'', ResolutionError, SignatureVerificationError,
         LinkageMismatchError])
   \<and> VerifyDIDAndDomain exampleComponents ''did:example:nobody'' testDomain =
       (Failed (NoLinkageFoundError 6),
        [CredentialFormatError ''segments'', ResolutionError, SignatureVerificationError,
         LinkageMismatchError, LinkageMismatchError, CredentialFormatError ''segments''])"
proof -
  let ?errs = "[CredentialFormatError ''segments'', ResolutionError,
    SignatureVerificationError, LinkageMismatchError]"
  have fetched: "fetch exampleComponents testDomain = Inr ''document''"
    by (simp add: exampleComponents_def)
  have parsed: "parse exampleComponents ''document'' = Inr exampleConfiguration"
    by (simp add: exampleComponents_def)
  have entries: "linkedCredentials exampleConfiguration =
      exampleRejected @ exampleGenuine # [CompactToken ''never-reached'']"
    by (simp add: exampleConfiguration_def)
  have rejected: "map (checkEntry exampleComponents testDID testDomain) exampleRejected =
      map Inl ?errs"
    by (simp add: example_defs)
  have genuine: "checkEntry exampleComponents testDID testDomain exampleGenuine = Inr ()"
    by (simp add: example_defs)
  have nobody: "map (checkEntry exampleComponents ''did:example:nobody'' testDomain)
      (linkedCredentials exampleConfiguration) =
      map Inl (?errs @ [LinkageMismatchError, CredentialFormatError ''segments''])"
    by (simp add: example_defs)
  have size: "length (linkedCredentials exampleConfiguration) = 6"
    by (simp add: exampleConfiguration_def exampleRejected_def)
  from VerifyDIDAndDomain_scan [OF fetched parsed, of testDID] entries rejected genuine
  have "VerifyDIDAndDomain exampleComponents testDID testDomain = (Verified, ?errs)"
    by blast
  moreover
  from VerifyDIDAndDomain_scan [OF fetched parsed, of "''did:example:nobody''"] nobody
  have "VerifyDIDAndDomain exampleComponents ''did:example:nobody'' testDomain =
      (Failed (NoLinkageFoundError 6),
       ?errs @ [LinkageMismatchError, CredentialFormatError ''segments''])"
    unfolding size by blast
  ultimately show ?thesis
    using fetched parsed by simp
qed

end
